theory Spec2Isabelle
  imports Main "HOL-Library.Word"
begin

unbundle bit_operations_syntax

section \<open>RP2040\_Volume: tone generation on PWM pins driven by a repeating timer\<close>

text \<open>
  A shallow embedding of \<^verbatim>\<open>RP2040_Volume.h\<close>. The C++ integer types are words of
  their width. The PWM peripheral, the GPIO multiplexer, the heap and the alarm pools of
  the SDK are the fields of one record \<open>sdk\<close> that every operation threads through.
  Member fields of the class carry the prefix \<open>m_\<close> in place of the leading
  underscore of the source.
\<close>

subsection \<open>Data\<close>

type_synonym u8 = "8 word"
type_synonym u16 = "16 word"
type_synonym u32 = "32 word"

text \<open>\<^verbatim>\<open>#define TIME_MS 0\<close>, \<^verbatim>\<open>#define TIME_US 1\<close>, \<^verbatim>\<open>#define TOP 1000\<close>.\<close>

definition TIME_MS :: u8 where "TIME_MS = 0"
definition TIME_US :: u8 where "TIME_US = 1"
definition TOP :: u16 where "TOP = 1000"

text \<open>\<^verbatim>\<open>struct timer_data\<close>, field by field.\<close>

record timer_data =
  numRepeats :: u32
  repeats :: u32
  high :: bool
  pinPlus :: u8
  pinMinus :: u8
  sliceNum :: u8
  diff :: bool
  level :: u16

text \<open>
  The configuration the source builds before \<^verbatim>\<open>pwm_init\<close>: only the three settings
  it writes are kept.
\<close>

record pwm_config =
  phase_correct :: bool
  clkdiv_int :: nat
  wrap :: u16

text \<open>
  The state of the collaborators.
  \<^item> \<open>gpio_level\<close>: the duty level last set for each pin by \<^verbatim>\<open>pwm_set_gpio_level\<close>;
  \<^item> \<open>gpio_pwm\<close>: the pins switched to \<^verbatim>\<open>GPIO_FUNC_PWM\<close>;
  \<^item> \<open>slice_enabled\<close>, \<open>slice_config\<close>, \<open>slice_counter\<close>: per PWM slice;
  \<^item> \<open>live_pools\<close>: handles of the alarm pools created and not yet destroyed,
    \<open>next_pool\<close> the next fresh handle;
  \<^item> \<open>live_alarms\<close>: the repeating timers registered and not yet cancelled or finished,
    each as (pool handle, period in microseconds);
  \<^item> \<open>live_data\<close>: the number of \<open>timer_data\<close> objects allocated by \<^verbatim>\<open>new\<close> and not
    yet deleted;
  \<^item> \<open>peak_pools\<close>, \<open>peak_alarms\<close>, \<open>peak_data\<close>: the largest number of each resource
    that was ever alive at one moment (resource-handle accounting).
\<close>

record sdk =
  gpio_level :: "u8 \<Rightarrow> u16"
  gpio_pwm :: "u8 set"
  slice_enabled :: "u8 \<Rightarrow> bool"
  slice_config :: "u8 \<Rightarrow> pwm_config option"
  slice_counter :: "u8 \<Rightarrow> u16"
  live_pools :: "nat list"
  next_pool :: nat
  live_alarms :: "(nat \<times> u32) list"
  live_data :: nat
  peak_pools :: nat
  peak_alarms :: nat
  peak_data :: nat

text \<open>
  The member fields of \<^verbatim>\<open>class RP2040_Volume\<close>. \<open>m_timerData\<close> is the owning pointer
  to the schedule (\<open>None\<close> is \<^verbatim>\<open>NULL\<close>), \<open>m_alarmPool\<close> the pool handle
  (\<open>None\<close> is \<^verbatim>\<open>NULL\<close>), and \<open>m_timer\<close> the \<^verbatim>\<open>repeating_timer_t\<close>: \<open>None\<close> when
  its alarm id is zero (never armed, cancelled or finished), otherwise the pool it is
  registered with and its period.
\<close>

record volume =
  m_level :: u16
  m_pinPlus :: u8
  m_pinMinus :: u8
  m_sliceNum :: u8
  m_diff :: bool
  m_timerData :: "timer_data option"
  m_numRepeats :: u32
  m_alarmPool :: "nat option"
  m_timer :: "(nat \<times> u32) option"

text \<open>
  What the C++ leaves undefined and the hardware or the SDK turns into a fault: an
  unsigned division by zero, \<^verbatim>\<open>alarm_pool_destroy\<close> dereferencing a null pool, and
  the constructor's \<^verbatim>\<open>assert\<close>.
\<close>

datatype fault = Division_by_zero | Null_pool_destroy | Assertion_failed

subsection \<open>PWM and GPIO collaborators\<close>

definition pwm_gpio_to_slice_num :: "u8 \<Rightarrow> u8" where
  "pwm_gpio_to_slice_num gpio = (drop_bit 1 gpio) AND 7"

definition pwm_gpio_to_channel :: "u8 \<Rightarrow> u8" where
  "pwm_gpio_to_channel gpio = gpio AND 1"

definition gpio_set_function_pwm :: "u8 \<Rightarrow> sdk \<Rightarrow> sdk" where
  "gpio_set_function_pwm gpio w = w\<lparr>gpio_pwm := insert gpio (gpio_pwm w)\<rparr>"

definition pwm_set_gpio_level :: "u8 \<Rightarrow> u16 \<Rightarrow> sdk \<Rightarrow> sdk" where
  "pwm_set_gpio_level gpio lvl w = w\<lparr>gpio_level := (gpio_level w)(gpio := lvl)\<rparr>"

definition pwm_set_enabled :: "u8 \<Rightarrow> bool \<Rightarrow> sdk \<Rightarrow> sdk" where
  "pwm_set_enabled slice_num enabled w =
     w\<lparr>slice_enabled := (slice_enabled w)(slice_num := enabled)\<rparr>"

text \<open>The channel argument the source passes is kept; only the stored configuration
  and the start flag are modelled.\<close>

definition pwm_init :: "u8 \<Rightarrow> u8 \<Rightarrow> pwm_config \<Rightarrow> bool \<Rightarrow> sdk \<Rightarrow> sdk" where
  "pwm_init slice_num chan c start w =
     w\<lparr>slice_config := (slice_config w)(slice_num := Some c),
       slice_enabled := (slice_enabled w)(slice_num := start)\<rparr>"

definition pwm_set_counter :: "u8 \<Rightarrow> u16 \<Rightarrow> sdk \<Rightarrow> sdk" where
  "pwm_set_counter slice_num c w =
     w\<lparr>slice_counter := (slice_counter w)(slice_num := c)\<rparr>"

subsection \<open>Heap and timer collaborators\<close>

text \<open>\<^verbatim>\<open>new timer_data()\<close> and \<^verbatim>\<open>delete\<close>; deleting a null pointer does nothing.\<close>

definition new_timer_data :: "sdk \<Rightarrow> sdk" where
  "new_timer_data w =
     w\<lparr>live_data := live_data w + 1,
       peak_data := max (peak_data w) (live_data w + 1)\<rparr>"

definition delete_timer_data :: "timer_data option \<Rightarrow> sdk \<Rightarrow> sdk" where
  "delete_timer_data p w =
     (case p of None \<Rightarrow> w | Some _ \<Rightarrow> w\<lparr>live_data := live_data w - 1\<rparr>)"

text \<open>
  \<^verbatim>\<open>cancel_repeating_timer\<close> does nothing to a timer whose alarm id is zero; otherwise
  it removes the alarm and zeroes the id. The result is the timer structure afterwards.
\<close>

definition cancel_repeating_timer ::
  "(nat \<times> u32) option \<Rightarrow> sdk \<Rightarrow> (nat \<times> u32) option \<times> sdk" where
  "cancel_repeating_timer t w =
     (case t of
        None \<Rightarrow> (None, w)
      | Some a \<Rightarrow> (None, w\<lparr>live_alarms := remove1 a (live_alarms w)\<rparr>))"

text \<open>
  \<^verbatim>\<open>alarm_pool_create\<close> hands out a fresh pool; its two arguments
  (\<^verbatim>\<open>TONE_ALARM_POOL_HARDWARE_ALARM_NUM\<close> and the pool size) play no part here.
  \<^verbatim>\<open>alarm_pool_destroy\<close> reads through its argument, so a null pool is a fault; the
  source guards the call in \<^verbatim>\<open>tone\<close> with \<^verbatim>\<open>_alarmPool != NULL\<close>.
\<close>

definition alarm_pool_create :: "sdk \<Rightarrow> nat \<times> sdk" where
  "alarm_pool_create w =
     (next_pool w,
      w\<lparr>live_pools := next_pool w # live_pools w,
        next_pool := Suc (next_pool w),
        peak_pools := max (peak_pools w) (Suc (length (live_pools w)))\<rparr>)"

definition alarm_pool_destroy :: "nat option \<Rightarrow> sdk \<Rightarrow> fault + sdk" where
  "alarm_pool_destroy pool w =
     (case pool of
        None \<Rightarrow> Inl Null_pool_destroy
      | Some p \<Rightarrow> Inr (w\<lparr>live_pools := remove1 p (live_pools w)\<rparr>))"

definition alarm_pool_add_repeating_timer_us ::
  "nat \<Rightarrow> u32 \<Rightarrow> sdk \<Rightarrow> (nat \<times> u32) option \<times> sdk" where
  "alarm_pool_add_repeating_timer_us pool delay_us w =
     (Some (pool, delay_us),
      w\<lparr>live_alarms := (pool, delay_us) # live_alarms w,
        peak_alarms := max (peak_alarms w) (Suc (length (live_alarms w)))\<rparr>)"

subsection \<open>The timer callback\<close>

text \<open>
  \<^verbatim>\<open>static bool timer_cb(struct repeating_timer *data)\<close>: the schedule behind
  \<^verbatim>\<open>data->user_data\<close> is passed and returned; the result is the callback's return
  value, the updated schedule and the updated collaborators.
\<close>

definition timer_cb :: "timer_data \<Rightarrow> sdk \<Rightarrow> bool \<times> timer_data \<times> sdk" where
  "timer_cb tData0 w =
    (let tData = tData0\<lparr>repeats := repeats tData0 + 1\<rparr> in
     if repeats tData \<ge> numRepeats tData then
       (let w1 = pwm_set_gpio_level (pinPlus tData) 0 w;
            w2 = (if diff tData then pwm_set_gpio_level (pinMinus tData) 0 w1 else w1)
        in (False, tData, w2))
     else
       (let w' =
          (if diff tData then
             (if high tData then
                pwm_set_gpio_level (pinMinus tData) (level tData)
                  (pwm_set_gpio_level (pinPlus tData) 0 w)
              else
                pwm_set_gpio_level (pinMinus tData) 0
                  (pwm_set_gpio_level (pinPlus tData) (level tData) w))
           else
             (if high tData then pwm_set_gpio_level (pinPlus tData) 0 w
              else pwm_set_gpio_level (pinPlus tData) (level tData) w))
        in (True, tData\<lparr>high := \<not> high tData\<rparr>, w')))"

text \<open>
  The repeating timer of the alarm pool calls the callback once per period for as long
  as the callback returns true. \<open>run_timer k\<close> is the situation after \<open>k\<close> periods: the
  flag tells whether the timer is still recurring.
\<close>

primrec run_timer :: "nat \<Rightarrow> timer_data \<Rightarrow> sdk \<Rightarrow> bool \<times> timer_data \<times> sdk" where
  "run_timer 0 tData w = (True, tData, w)"
| "run_timer (Suc k) tData w =
    (case run_timer k tData w of
       (recurring, tData', w') \<Rightarrow>
         if recurring then timer_cb tData' w' else (False, tData', w'))"

text \<open>
  A schedule completes after \<open>n\<close> invocations: the timer is still recurring after each
  smaller number of invocations, and after the \<open>n\<close>-th it has stopped with the plus lead
  (and the minus lead of a differential pair) at duty level zero.
\<close>

definition completes_after :: "nat \<Rightarrow> timer_data \<Rightarrow> sdk \<Rightarrow> bool" where
  "completes_after n tData w \<longleftrightarrow>
    (\<forall>k<n. fst (run_timer k tData w)) \<and>
    (case run_timer n tData w of
       (recurring, tData', w') \<Rightarrow>
         \<not> recurring \<and> gpio_level w' (pinPlus tData) = 0 \<and>
         (diff tData \<longrightarrow> gpio_level w' (pinMinus tData) = 0))"

subsection \<open>The class\<close>

text \<open>
  The constructor. \<open>pin_minus = 255\<close> is the default argument, meaning single-ended.
  \<open>level0\<close> and \<open>numRepeats0\<close> are the contents of the two members the constructor
  leaves uninitialised.
\<close>

definition RP2040_Volume ::
  "u8 \<Rightarrow> u8 \<Rightarrow> u16 \<Rightarrow> u32 \<Rightarrow> sdk \<Rightarrow> fault + (volume \<times> sdk)" where
  "RP2040_Volume pin_plus pin_minus level0 numRepeats0 w =
    (let d = (pin_minus \<noteq> 255);
         s = pwm_gpio_to_slice_num pin_plus;
         this = \<lparr>m_level = level0, m_pinPlus = pin_plus,
                  m_pinMinus = (if d then pin_minus else 255), m_sliceNum = s, m_diff = d,
                  m_timerData = None, m_numRepeats = numRepeats0, m_alarmPool = None,
                  m_timer = None\<rparr>
     in if d then
          (if pwm_gpio_to_slice_num pin_minus = s then
             Inr (this, gpio_set_function_pwm pin_minus (gpio_set_function_pwm pin_plus w))
           else Inl Assertion_failed)
        else Inr (this, gpio_set_function_pwm pin_plus w))"

text \<open>
  The \<^verbatim>\<open>switch (time)\<close> of \<^verbatim>\<open>tone\<close>: the new value of \<^verbatim>\<open>_numRepeats\<close>, given the
  old one. \<^verbatim>\<open>(uint32_t)1000*duration\<close> is a 32-bit product; the division is unsigned
  and faults on a zero divisor; there is no \<^verbatim>\<open>default\<close> case.
\<close>

definition udiv32 :: "u32 \<Rightarrow> u32 \<Rightarrow> fault + u32" where
  "udiv32 a b = (if b = 0 then Inl Division_by_zero else Inr (a div b))"

definition switch_time :: "u8 \<Rightarrow> u16 \<Rightarrow> u32 \<Rightarrow> u32 \<Rightarrow> fault + u32" where
  "switch_time time duration usPerWave numRepeats_old =
    (if time = TIME_US then udiv32 (ucast duration) usPerWave
     else if time = TIME_MS then udiv32 (1000 * ucast duration) usPerWave
     else Inr numRepeats_old)"

text \<open>
  \<^verbatim>\<open>tone(freq, volume, duration, time)\<close>. The two floating-point computations are
  taken by their results: \<open>usPerWave\<close> is the value of \<^verbatim>\<open>freq_to_us(freq)\<close> and \<open>lvl\<close>
  the value of \<^verbatim>\<open>(uint16_t)round(volume * 10.0f)\<close> after the clamping of \<open>volume\<close>.
\<close>

definition tone ::
  "u32 \<Rightarrow> u16 \<Rightarrow> u16 \<Rightarrow> u8 \<Rightarrow> volume \<Rightarrow> sdk \<Rightarrow> fault + (volume \<times> sdk)" where
  "tone usPerWave lvl duration time this0 w0 =
    (let config = \<lparr>phase_correct = True, clkdiv_int = 1, wrap = TOP\<rparr>;
         w1 = pwm_set_enabled (m_sliceNum this0) False w0;
         w2 = pwm_init (m_sliceNum this0) (pwm_gpio_to_channel (m_pinPlus this0)) config False w1;
         this1 = this0\<lparr>m_level := lvl\<rparr>;
         w3 = pwm_set_gpio_level (m_pinPlus this1) 0 w2;
         w4 = (if m_diff this1 then pwm_set_gpio_level (m_pinMinus this1) (m_level this1) w3
               else w3)
     in case switch_time time duration usPerWave (m_numRepeats this1) of
          Inl f \<Rightarrow> Inl f
        | Inr n \<Rightarrow>
           (let this2 = this1\<lparr>m_numRepeats := n\<rparr>;
                (t5, w5) =
                  (if m_timerData this2 \<noteq> None then
                     (case cancel_repeating_timer (m_timer this2) w4 of
                        (t, w) \<Rightarrow> (t, delete_timer_data (m_timerData this2) w))
                   else (m_timer this2, w4));
                w6 = new_timer_data w5;
                tData = \<lparr>numRepeats = m_numRepeats this2, repeats = 0, high = False,
                          pinPlus = m_pinPlus this2, pinMinus = m_pinMinus this2,
                          sliceNum = m_sliceNum this2, diff = m_diff this2,
                          level = m_level this2\<rparr>;
                this3 = this2\<lparr>m_timer := t5, m_timerData := Some tData\<rparr>
            in case (if m_alarmPool this3 \<noteq> None
                     then alarm_pool_destroy (m_alarmPool this3) w6 else Inr w6) of
                 Inl f \<Rightarrow> Inl f
               | Inr w7 \<Rightarrow>
                  (let (pool, w8) = alarm_pool_create w7;
                       this4 = this3\<lparr>m_alarmPool := Some pool\<rparr>;
                       (t9, w9) = alarm_pool_add_repeating_timer_us pool usPerWave w8;
                       this5 = this4\<lparr>m_timer := t9\<rparr>;
                       w10 = pwm_set_counter (m_sliceNum this5) 0 w9;
                       w11 = pwm_set_enabled (m_sliceNum this5) True w10
                   in Inr (this5, w11))))"

text \<open>\<^verbatim>\<open>cancel_timer()\<close> and \<^verbatim>\<open>stop_tone()\<close>.\<close>

definition cancel_timer :: "volume \<Rightarrow> sdk \<Rightarrow> volume \<times> sdk" where
  "cancel_timer this w =
    (case cancel_repeating_timer (m_timer this) w of
       (t, w') \<Rightarrow> (this\<lparr>m_timer := t\<rparr>, w'))"

definition stop_tone :: "volume \<Rightarrow> sdk \<Rightarrow> fault + (volume \<times> sdk)" where
  "stop_tone this0 w0 =
    (let (this1, w1) = cancel_timer this0 w0;
         w2 = delete_timer_data (m_timerData this1) w1;
         this2 = this1\<lparr>m_timerData := None\<rparr>
     in case alarm_pool_destroy (m_alarmPool this2) w2 of
          Inl f \<Rightarrow> Inl f
        | Inr w3 \<Rightarrow>
           (let this3 = this2\<lparr>m_alarmPool := None\<rparr>;
                w4 = pwm_set_gpio_level (m_pinPlus this3) 0 w3;
                w5 = (if m_diff this3 then pwm_set_gpio_level (m_pinMinus this3) 0 w4 else w4)
            in Inr (this3, w5)))"

text \<open>The destructor \<^verbatim>\<open>~RP2040_Volume()\<close>: the object is gone afterwards, the
  collaborators remain.\<close>

definition destroy_RP2040_Volume :: "volume \<Rightarrow> sdk \<Rightarrow> fault + sdk" where
  "destroy_RP2040_Volume this w0 =
    (let (t, w1) = cancel_repeating_timer (m_timer this) w0;
         w2 = delete_timer_data (m_timerData this) w1
     in alarm_pool_destroy (m_alarmPool this) w2)"

text \<open>
  Resource accounting for one instance: the pools, alarms and schedule objects alive
  are exactly those the instance points to, an armed timer belongs to the instance's
  pool and has its schedule, and no more than one of each was ever alive at once.
\<close>

definition accounted :: "volume \<Rightarrow> sdk \<Rightarrow> bool" where
  "accounted this w \<longleftrightarrow>
     live_pools w = (case m_alarmPool this of None \<Rightarrow> [] | Some p \<Rightarrow> [p]) \<and>
     live_alarms w = (case m_timer this of None \<Rightarrow> [] | Some a \<Rightarrow> [a]) \<and>
     live_data w = (case m_timerData this of None \<Rightarrow> 0 | Some _ \<Rightarrow> 1) \<and>
     (case m_timer this of
        None \<Rightarrow> True
      | Some a \<Rightarrow> m_alarmPool this = Some (fst a) \<and> m_timerData this \<noteq> None) \<and>
     peak_pools w \<le> 1 \<and> peak_alarms w \<le> 1 \<and> peak_data w \<le> 1"

text \<open>The collaborators at reset: every duty level zero, nothing allocated.\<close>

definition sdk_reset :: sdk where
  "sdk_reset =
     \<lparr>gpio_level = (\<lambda>_. 0), gpio_pwm = {}, slice_enabled = (\<lambda>_. False),
      slice_config = (\<lambda>_. None), slice_counter = (\<lambda>_. 0), live_pools = [],
      next_pool = 0, live_alarms = [], live_data = 0, peak_pools = 0, peak_alarms = 0,
      peak_data = 0\<rparr>"

text \<open>The instance \<^verbatim>\<open>RP2040_Volume(2, 3)\<close> builds: a differential pair on the pins 2
  and 3 of slice 1, idle.\<close>

definition example_volume :: volume where
  "example_volume =
     \<lparr>m_level = 0, m_pinPlus = 2, m_pinMinus = 3, m_sliceNum = 1, m_diff = True,
      m_timerData = None, m_numRepeats = 0, m_alarmPool = None, m_timer = None\<rparr>"

text \<open>The same instance and the collaborators while it plays
  \<^verbatim>\<open>tone(1000, 100, 1, TIME_MS)\<close>: half-period 500 microseconds, level 1000, two
  toggles.\<close>

definition playing_volume :: volume where
  "playing_volume =
     \<lparr>m_level = 1000, m_pinPlus = 2, m_pinMinus = 3, m_sliceNum = 1, m_diff = True,
      m_timerData = Some \<lparr>numRepeats = 2, repeats = 0, high = False, pinPlus = 2,
        pinMinus = 3, sliceNum = 1, diff = True, level = 1000\<rparr>,
      m_numRepeats = 2, m_alarmPool = Some 0, m_timer = Some (0, 500)\<rparr>"

definition playing_sdk :: sdk where
  "playing_sdk =
     \<lparr>gpio_level = (\<lambda>_. 0)(2 := 0, 3 := 1000), gpio_pwm = {3, 2},
      slice_enabled = (\<lambda>_. False)(1 := True),
      slice_config = (\<lambda>_. None)(1 := Some \<lparr>phase_correct = True, clkdiv_int = 1,
        wrap = 1000\<rparr>),
      slice_counter = (\<lambda>_. 0)(1 := 0), live_pools = [0], next_pool = 1,
      live_alarms = [(0, 500)],
      live_data = 1, peak_pools = 1, peak_alarms = 1, peak_data = 1\<rparr>"

section \<open>The timer callback and the toggle count\<close>

lemma timer_cb_continue:
  "repeats td + 1 < numRepeats td \<Longrightarrow>
   \<exists>w'. timer_cb td w = (True, td\<lparr>repeats := repeats td + 1, high := \<not> high td\<rparr>, w')"
  by (simp add: timer_cb_def Let_def not_le[symmetric])

lemma timer_cb_final:
  "numRepeats td \<le> repeats td + 1 \<Longrightarrow>
   \<exists>w'. timer_cb td w = (False, td\<lparr>repeats := repeats td + 1\<rparr>, w') \<and>
        gpio_level w' (pinPlus td) = 0 \<and> (diff td \<longrightarrow> gpio_level w' (pinMinus td) = 0)"
  by (simp add: timer_cb_def Let_def pwm_set_gpio_level_def)

lemma u32_of_nat_Suc:
  "Suc k \<le> unat (n :: u32) \<Longrightarrow> unat (of_nat k + 1 :: u32) = Suc k"
proof -
  assume le: "Suc k \<le> unat n"
  have "unat n < 2 ^ 32" using unsigned_less[of n] by simp
  with le have "Suc k < 2 ^ LENGTH(32)" by simp
  moreover have "(of_nat (Suc k) :: u32) = of_nat k + 1" by simp
  ultimately show ?thesis by (rule of_nat_inverse[rotated])
qed

text \<open>
  While fewer invocations have happened than the schedule asks for, the timer is still
  recurring, the counter holds the number of invocations and the phase flag has been
  inverted once per invocation.
\<close>

lemma run_timer_before:
  "repeats td = 0 \<Longrightarrow> k < max 1 (unat (numRepeats td)) \<Longrightarrow>
   \<exists>w'. run_timer k td w =
     (True, td\<lparr>repeats := of_nat k, high := (if even k then high td else \<not> high td)\<rparr>, w')"
proof (induction k)
  case 0
  then show ?case by simp
next
  case (Suc k)
  from Suc.prems have "k < max 1 (unat (numRepeats td))" by simp
  from Suc.IH[OF Suc.prems(1) this] obtain w' where rk: "run_timer k td w =
     (True, td\<lparr>repeats := of_nat k, high := (if even k then high td else \<not> high td)\<rparr>, w')"
    by blast
  let ?tk = "td\<lparr>repeats := of_nat k, high := (if even k then high td else \<not> high td)\<rparr>"
  from Suc.prems have lt: "Suc k < unat (numRepeats td)" by simp
  then have "Suc k \<le> unat (numRepeats td)" by simp
  then have "unat (of_nat k + 1 :: u32) = Suc k" by (rule u32_of_nat_Suc)
  with lt have "(of_nat k + 1 :: u32) < numRepeats td"
    by (simp add: word_less_nat_alt)
  then have "repeats ?tk + 1 < numRepeats ?tk" by simp
  from timer_cb_continue[OF this, of w'] rk show ?case by auto
qed

text \<open>
  C1 (amended). A schedule started with its counter at zero and asking for \<open>N\<close> toggles
  completes after exactly \<open>max 1 N\<close> invocations of the callback, whatever the starting
  phase flag: every earlier invocation returns true, and that invocation drives the plus
  lead (and the minus lead of a differential pair) to zero and returns false. For
  \<open>N \<ge> 1\<close> this is the \<open>N\<close>-th invocation; for \<open>N = 0\<close> it is the first one, since
  the callback increments the counter before it compares.
\<close>

theorem timer_cb_completes_after_max_1_N:
  assumes "repeats td = 0"
  shows "completes_after (max 1 (unat (numRepeats td))) td w"
proof -
  let ?M = "max 1 (unat (numRepeats td))"
  obtain k where M: "?M = Suc k" by (cases ?M) auto
  then have "k < ?M" by simp
  from run_timer_before[OF assms this, of w] obtain w' where rk: "run_timer k td w =
     (True, td\<lparr>repeats := of_nat k, high := (if even k then high td else \<not> high td)\<rparr>, w')"
    by auto
  let ?tk = "td\<lparr>repeats := of_nat k, high := (if even k then high td else \<not> high td)\<rparr>"
  have "numRepeats td \<le> of_nat k + 1"
  proof (cases "unat (numRepeats td) = 0")
    case True
    then show ?thesis by (simp add: unat_eq_0)
  next
    case False
    with M have eq: "unat (numRepeats td) = Suc k" by simp
    then have "Suc k \<le> unat (numRepeats td)" by simp
    then have "unat (of_nat k + 1 :: u32) = Suc k" by (rule u32_of_nat_Suc)
    with eq show ?thesis by (simp add: word_le_nat_alt)
  qed
  then have "numRepeats ?tk \<le> repeats ?tk + 1" by simp
  from timer_cb_final[OF this, of w'] rk
  have fin: "case run_timer (Suc k) td w of (recurring, tData', w') \<Rightarrow>
         \<not> recurring \<and> gpio_level w' (pinPlus td) = 0 \<and>
         (diff td \<longrightarrow> gpio_level w' (pinMinus td) = 0)"
    by auto
  have "\<forall>j<?M. fst (run_timer j td w)"
    using run_timer_before[OF assms, of _ w] by fastforce
  with fin M show ?thesis unfolding completes_after_def by simp
qed

theorem timer_cb_completes_after_max_1_N_witness:
  "completes_after 3
     \<lparr>numRepeats = 3, repeats = 0, high = True, pinPlus = 2, pinMinus = 3, sliceNum = 1,
      diff = True, level = 500\<rparr> sdk_reset"
  using timer_cb_completes_after_max_1_N
    [of "\<lparr>numRepeats = 3, repeats = 0, high = True, pinPlus = 2, pinMinus = 3,
          sliceNum = 1, diff = True, level = 500\<rparr>" sdk_reset]
  by simp

text \<open>
  The claim as stated fails for \<open>N = 0\<close>: after zero invocations the timer is still
  recurring; the schedule completes with the first invocation.
\<close>

theorem timer_cb_zero_toggles_counterexample:
  "\<not> completes_after
       (unat (numRepeats \<lparr>numRepeats = 0, repeats = 0, high = False, pinPlus = 2,
          pinMinus = 3, sliceNum = 1, diff = True, level = 500\<rparr>))
       \<lparr>numRepeats = 0, repeats = 0, high = False, pinPlus = 2, pinMinus = 3, sliceNum = 1,
        diff = True, level = 500\<rparr> sdk_reset \<and>
   completes_after 1
       \<lparr>numRepeats = 0, repeats = 0, high = False, pinPlus = 2, pinMinus = 3, sliceNum = 1,
        diff = True, level = 500\<rparr> sdk_reset"
  by (simp add: completes_after_def timer_cb_def pwm_set_gpio_level_def sdk_reset_def)

section \<open>Starting a tone\<close>

text \<open>The PWM operations leave the accounting of pools, alarms and schedule objects
  alone; only \<^verbatim>\<open>pwm_set_gpio_level\<close> touches a duty level.\<close>

lemma pwm_set_enabled_frame:
  "live_pools (pwm_set_enabled s b w) = live_pools w"
  "live_alarms (pwm_set_enabled s b w) = live_alarms w"
  "live_data (pwm_set_enabled s b w) = live_data w"
  "next_pool (pwm_set_enabled s b w) = next_pool w"
  "peak_pools (pwm_set_enabled s b w) = peak_pools w"
  "peak_alarms (pwm_set_enabled s b w) = peak_alarms w"
  "peak_data (pwm_set_enabled s b w) = peak_data w"
  "gpio_level (pwm_set_enabled s b w) = gpio_level w"
  by (simp_all add: pwm_set_enabled_def)

lemma pwm_init_frame:
  "live_pools (pwm_init s ch c b w) = live_pools w"
  "live_alarms (pwm_init s ch c b w) = live_alarms w"
  "live_data (pwm_init s ch c b w) = live_data w"
  "next_pool (pwm_init s ch c b w) = next_pool w"
  "peak_pools (pwm_init s ch c b w) = peak_pools w"
  "peak_alarms (pwm_init s ch c b w) = peak_alarms w"
  "peak_data (pwm_init s ch c b w) = peak_data w"
  "gpio_level (pwm_init s ch c b w) = gpio_level w"
  by (simp_all add: pwm_init_def)

lemma pwm_set_gpio_level_frame:
  "live_pools (pwm_set_gpio_level g l w) = live_pools w"
  "live_alarms (pwm_set_gpio_level g l w) = live_alarms w"
  "live_data (pwm_set_gpio_level g l w) = live_data w"
  "next_pool (pwm_set_gpio_level g l w) = next_pool w"
  "peak_pools (pwm_set_gpio_level g l w) = peak_pools w"
  "peak_alarms (pwm_set_gpio_level g l w) = peak_alarms w"
  "peak_data (pwm_set_gpio_level g l w) = peak_data w"
  "gpio_level (pwm_set_gpio_level g l w) = (gpio_level w)(g := l)"
  by (simp_all add: pwm_set_gpio_level_def)

lemma pwm_set_counter_frame:
  "live_pools (pwm_set_counter s c w) = live_pools w"
  "live_alarms (pwm_set_counter s c w) = live_alarms w"
  "live_data (pwm_set_counter s c w) = live_data w"
  "next_pool (pwm_set_counter s c w) = next_pool w"
  "peak_pools (pwm_set_counter s c w) = peak_pools w"
  "peak_alarms (pwm_set_counter s c w) = peak_alarms w"
  "peak_data (pwm_set_counter s c w) = peak_data w"
  "gpio_level (pwm_set_counter s c w) = gpio_level w"
  by (simp_all add: pwm_set_counter_def)

lemma if_frame:
  "live_pools (if c then a else b) = (if c then live_pools a else live_pools b)"
  "live_alarms (if c then a else b) = (if c then live_alarms a else live_alarms b)"
  "live_data (if c then a else b) = (if c then live_data a else live_data b)"
  "next_pool (if c then a else b) = (if c then next_pool a else next_pool b)"
  "peak_pools (if c then a else b) = (if c then peak_pools a else peak_pools b)"
  "peak_alarms (if c then a else b) = (if c then peak_alarms a else peak_alarms b)"
  "peak_data (if c then a else b) = (if c then peak_data a else peak_data b)"
  "gpio_level (if c then a else b) = (if c then gpio_level a else gpio_level b)"
  by simp_all

lemmas pwm_frame = pwm_set_enabled_frame pwm_init_frame pwm_set_gpio_level_frame
  pwm_set_counter_frame if_frame

lemmas timer_ops = new_timer_data_def delete_timer_data_def cancel_repeating_timer_def
  alarm_pool_create_def alarm_pool_destroy_def alarm_pool_add_repeating_timer_us_def

text \<open>
  What \<^verbatim>\<open>tone\<close> returns when the \<^verbatim>\<open>switch\<close> does not fault: the instance with its
  new schedule, a fresh pool and an armed timer, and the collaborators with the earlier
  timer, schedule object and pool released first.
\<close>

lemma tone_fault:
  "switch_time time duration usPerWave (m_numRepeats this) = Inl f \<Longrightarrow>
   tone usPerWave lvl duration time this w = Inl f"
  by (simp add: tone_def Let_def)

lemma tone_result:
  assumes sw: "switch_time time duration usPerWave (m_numRepeats this) = Inr n"
  shows "\<exists>w'. tone usPerWave lvl duration time this w =
     Inr (this\<lparr>m_level := lvl, m_numRepeats := n,
            m_timerData := Some \<lparr>numRepeats = n, repeats = 0, high = False,
                          pinPlus = m_pinPlus this, pinMinus = m_pinMinus this,
                          sliceNum = m_sliceNum this, diff = m_diff this, level = lvl\<rparr>,
            m_alarmPool := Some (next_pool w), m_timer := Some (next_pool w, usPerWave)\<rparr>, w') \<and>
     live_pools w' = next_pool w #
       (case m_alarmPool this of None \<Rightarrow> live_pools w | Some p \<Rightarrow> remove1 p (live_pools w)) \<and>
     live_alarms w' = (next_pool w, usPerWave) #
       (case m_timerData this of
          None \<Rightarrow> live_alarms w
        | Some _ \<Rightarrow> (case m_timer this of None \<Rightarrow> live_alarms w
                     | Some a \<Rightarrow> remove1 a (live_alarms w))) \<and>
     live_data w' =
       Suc (case m_timerData this of None \<Rightarrow> live_data w | Some _ \<Rightarrow> live_data w - 1) \<and>
     peak_pools w' = max (peak_pools w)
       (Suc (length (case m_alarmPool this of None \<Rightarrow> live_pools w
                     | Some p \<Rightarrow> remove1 p (live_pools w)))) \<and>
     peak_alarms w' = max (peak_alarms w)
       (Suc (length (case m_timerData this of
          None \<Rightarrow> live_alarms w
        | Some _ \<Rightarrow> (case m_timer this of None \<Rightarrow> live_alarms w
                     | Some a \<Rightarrow> remove1 a (live_alarms w))))) \<and>
     peak_data w' = max (peak_data w)
       (Suc (case m_timerData this of None \<Rightarrow> live_data w | Some _ \<Rightarrow> live_data w - 1)) \<and>
     gpio_level w' =
       (if m_diff this then (gpio_level w)(m_pinPlus this := 0, m_pinMinus this := lvl)
        else (gpio_level w)(m_pinPlus this := 0))"
proof (cases "m_timerData this")
  case None
  show ?thesis
  proof (cases "m_alarmPool this")
    case None
    with \<open>m_timerData this = None\<close> sw show ?thesis
      by (simp add: tone_def Let_def timer_ops pwm_frame)
  next
    case (Some p)
    with \<open>m_timerData this = None\<close> sw show ?thesis
      by (simp add: tone_def Let_def timer_ops pwm_frame)
  qed
next
  case (Some d)
  show ?thesis
  proof (cases "m_alarmPool this")
    case None
    with Some sw show ?thesis
      by (cases "m_timer this") (simp_all add: tone_def Let_def timer_ops pwm_frame)
  next
    case (Some p)
    with \<open>m_timerData this = Some d\<close> sw show ?thesis
      by (cases "m_timer this") (simp_all add: tone_def Let_def timer_ops pwm_frame)
  qed
qed

subsection \<open>The toggle count\<close>

text \<open>\<^verbatim>\<open>(uint32_t)1000*duration\<close> cannot wrap: a 16-bit duration times 1000 is below
  \<open>2\<^sup>3\<^sup>2\<close>.\<close>

lemma unat_ucast_u16_u32: "unat (ucast (d :: u16) :: u32) = unat d"
proof -
  have "unat d < 2 ^ 16" using unsigned_less[of d] by simp
  then have "unat d < 2 ^ 32" by simp
  then show ?thesis by (simp add: unsigned_ucast_eq take_bit_nat_eq_self)
qed

lemma unat_1000_times: "unat (1000 * ucast (d :: u16) :: u32) = 1000 * unat d"
proof -
  have "unat d < 2 ^ 16" using unsigned_less[of d] by simp
  then have "unat (1000 :: u32) * unat (ucast d :: u32) < 2 ^ LENGTH(32)"
    by (simp add: unat_ucast_u16_u32)
  then have "unat (1000 * ucast d :: u32) = unat (1000 :: u32) * unat (ucast d :: u32)"
    by (simp only: unat_mult_lem)
  then show ?thesis by (simp add: unat_ucast_u16_u32)
qed

lemma switch_time_MS:
  "usPerWave \<noteq> 0 \<Longrightarrow>
   \<exists>n. switch_time TIME_MS duration usPerWave old = Inr n \<and>
       unat n = 1000 * unat duration div unat usPerWave"
  by (simp add: switch_time_def udiv32_def TIME_MS_def TIME_US_def unat_div unat_1000_times)

lemma switch_time_US:
  "usPerWave \<noteq> 0 \<Longrightarrow>
   \<exists>n. switch_time TIME_US duration usPerWave old = Inr n \<and>
       unat n = unat duration div unat usPerWave"
  by (simp add: switch_time_def udiv32_def TIME_US_def unat_div unat_ucast_u16_u32)

lemma switch_time_other:
  "time \<noteq> TIME_MS \<Longrightarrow> time \<noteq> TIME_US \<Longrightarrow> switch_time time duration usPerWave old = Inr old"
  by (simp add: switch_time_def)

lemma switch_time_zero:
  "switch_time TIME_MS duration 0 old = Inl Division_by_zero"
  "switch_time TIME_US duration 0 old = Inl Division_by_zero"
  by (simp_all add: switch_time_def udiv32_def TIME_MS_def TIME_US_def)

text \<open>
  C4. For every duration \<open>d\<close> and half-period \<open>h > 0\<close>, the schedule \<^verbatim>\<open>tone\<close> creates
  asks for \<open>1000 * d div h\<close> toggles when the unit is milliseconds and \<open>d div h\<close> when
  it is microseconds, in truncating division on the natural numbers (no wrap-around), so
  a duration shorter than one half-period gives exactly zero toggles.
\<close>

theorem tone_toggle_count:
  assumes "usPerWave \<noteq> 0"
  shows "(\<exists>this' w' td. tone usPerWave lvl duration TIME_MS this w = Inr (this', w') \<and>
            m_timerData this' = Some td \<and>
            unat (numRepeats td) = 1000 * unat duration div unat usPerWave \<and>
            (1000 * unat duration < unat usPerWave \<longrightarrow> numRepeats td = 0)) \<and>
         (\<exists>this' w' td. tone usPerWave lvl duration TIME_US this w = Inr (this', w') \<and>
            m_timerData this' = Some td \<and>
            unat (numRepeats td) = unat duration div unat usPerWave \<and>
            (unat duration < unat usPerWave \<longrightarrow> numRepeats td = 0))"
proof
  from switch_time_MS[OF assms] obtain n where
    sw: "switch_time TIME_MS duration usPerWave (m_numRepeats this) = Inr n" and
    n: "unat n = 1000 * unat duration div unat usPerWave" by blast
  from n have "1000 * unat duration < unat usPerWave \<longrightarrow> n = 0"
    by (simp add: unat_eq_0[symmetric])
  with tone_result[OF sw, of lvl w] n
  show "\<exists>this' w' td. tone usPerWave lvl duration TIME_MS this w = Inr (this', w') \<and>
            m_timerData this' = Some td \<and>
            unat (numRepeats td) = 1000 * unat duration div unat usPerWave \<and>
            (1000 * unat duration < unat usPerWave \<longrightarrow> numRepeats td = 0)"
    by auto
next
  from switch_time_US[OF assms] obtain n where
    sw: "switch_time TIME_US duration usPerWave (m_numRepeats this) = Inr n" and
    n: "unat n = unat duration div unat usPerWave" by blast
  from n have "unat duration < unat usPerWave \<longrightarrow> n = 0"
    by (simp add: unat_eq_0[symmetric])
  with tone_result[OF sw, of lvl w] n
  show "\<exists>this' w' td. tone usPerWave lvl duration TIME_US this w = Inr (this', w') \<and>
            m_timerData this' = Some td \<and>
            unat (numRepeats td) = unat duration div unat usPerWave \<and>
            (unat duration < unat usPerWave \<longrightarrow> numRepeats td = 0)"
    by auto
qed

text \<open>
  C10. When the time unit is neither \<^verbatim>\<open>TIME_MS\<close> nor \<^verbatim>\<open>TIME_US\<close>, \<^verbatim>\<open>tone\<close> does not
  recompute the toggle count: it returns, and the new schedule's repeat target is the
  value \<^verbatim>\<open>_numRepeats\<close> held before the call, which the field keeps.
\<close>

theorem tone_unknown_unit_keeps_numRepeats:
  assumes "time \<noteq> TIME_MS" and "time \<noteq> TIME_US"
  shows "\<exists>this' w' td. tone usPerWave lvl duration time this w = Inr (this', w') \<and>
           m_timerData this' = Some td \<and> numRepeats td = m_numRepeats this \<and>
           m_numRepeats this' = m_numRepeats this"
proof -
  have "switch_time time duration usPerWave (m_numRepeats this) = Inr (m_numRepeats this)"
    using assms by (rule switch_time_other)
  from tone_result[OF this] show ?thesis by fastforce
qed

text \<open>
  C9. A half-period of zero microseconds is not tolerated: with either time unit,
  \<^verbatim>\<open>tone\<close> divides the duration by it, whatever the other arguments and the state.
\<close>

theorem tone_zero_half_period_divides_by_zero:
  "tone 0 lvl duration TIME_MS this w = Inl Division_by_zero \<and>
   tone 0 lvl duration TIME_US this w = Inl Division_by_zero"
  by (simp add: tone_fault switch_time_zero)

text \<open>The example instance is what the constructor builds at reset.\<close>

lemma example_volume_constructed:
  "RP2040_Volume 2 3 0 0 sdk_reset = Inr (example_volume, sdk_reset\<lparr>gpio_pwm := {3, 2}\<rparr>)"
  by (simp add: RP2040_Volume_def Let_def pwm_gpio_to_slice_num_def example_volume_def
      gpio_set_function_pwm_def sdk_reset_def)

theorem tone_toggle_count_witness:
  "(\<exists>this' w' td. tone 1136 500 1000 TIME_MS example_volume sdk_reset = Inr (this', w') \<and>
       m_timerData this' = Some td \<and> unat (numRepeats td) = 880) \<and>
   (\<exists>this' w' td. tone 1136 500 1000 TIME_US example_volume sdk_reset = Inr (this', w') \<and>
       m_timerData this' = Some td \<and> numRepeats td = 0)"
  using tone_toggle_count[where usPerWave = 1136 and lvl = 500 and duration = 1000
      and this = example_volume and w = sdk_reset]
  by auto

theorem tone_unknown_unit_keeps_numRepeats_witness:
  "\<exists>this' w' td. tone 500 1000 1 7 (example_volume\<lparr>m_numRepeats := 42\<rparr>) sdk_reset = Inr (this', w') \<and>
       m_timerData this' = Some td \<and> numRepeats td = 42 \<and> m_numRepeats this' = 42"
  using tone_unknown_unit_keeps_numRepeats[where time = 7 and usPerWave = 500 and lvl = 1000
      and duration = 1 and this = "example_volume\<lparr>m_numRepeats := 42\<rparr>" and w = sdk_reset]
  by (simp add: TIME_MS_def TIME_US_def)

subsection \<open>The phase of each toggle\<close>

lemma tone_Inr_switch:
  assumes "tone usPerWave lvl duration time this w = Inr (this', w')"
  shows "switch_time time duration usPerWave (m_numRepeats this) = Inr (m_numRepeats this')"
proof (cases "switch_time time duration usPerWave (m_numRepeats this)")
  case (Inl f)
  from tone_fault[OF this] assms show ?thesis by simp
next
  case (Inr n)
  from tone_result[OF this, of lvl w] assms Inr show ?thesis by auto
qed


lemma switch_time_Inr:
  "usPerWave \<noteq> 0 \<or> (time \<noteq> TIME_MS \<and> time \<noteq> TIME_US) \<Longrightarrow>
   \<exists>n. switch_time time duration usPerWave old = Inr n"
  by (auto simp: switch_time_def udiv32_def)


subsection \<open>One schedule, one timer, one pool\<close>

text \<open>
  C6. From every state in which the instance accounts for all live resources and at
  most one pool, one timer and one schedule object were ever alive at once, a call of
  \<^verbatim>\<open>tone\<close> that gets past the division returns with exactly one schedule object, one
  pool and one armed timer alive, all three the new ones the instance points to, and
  still with never more than one of each alive at any moment: the earlier timer,
  schedule object and pool were each released before their replacement was made.
\<close>

theorem tone_one_schedule_no_leak:
  assumes acc: "accounted this w"
    and ok: "usPerWave \<noteq> 0 \<or> (time \<noteq> TIME_MS \<and> time \<noteq> TIME_US)"
  shows "\<exists>this' w' td. tone usPerWave lvl duration time this w = Inr (this', w') \<and>
           accounted this' w' \<and>
           m_timerData this' = Some td \<and> live_data w' = 1 \<and>
           m_alarmPool this' = Some (next_pool w) \<and> live_pools w' = [next_pool w] \<and>
           m_timer this' = Some (next_pool w, usPerWave) \<and>
           live_alarms w' = [(next_pool w, usPerWave)]"
proof -
  from switch_time_Inr[OF ok] obtain n where
    sw: "switch_time time duration usPerWave (m_numRepeats this) = Inr n" by blast
  from tone_result[OF sw, of lvl w] acc show ?thesis
    by (cases "m_timerData this"; cases "m_alarmPool this"; cases "m_timer this")
       (auto simp: accounted_def)
qed

subsection \<open>The example instance while it plays\<close>


lemma playing_accounted: "accounted playing_volume playing_sdk"
  by (simp add: accounted_def playing_volume_def playing_sdk_def)



theorem tone_one_schedule_no_leak_witness:
  "\<exists>this' w' td. tone 1136 500 1000 TIME_MS playing_volume playing_sdk = Inr (this', w') \<and>
     accounted this' w' \<and> m_timerData this' = Some td \<and> live_data w' = 1 \<and>
     m_alarmPool this' = Some 1 \<and> live_pools w' = [1] \<and>
     m_timer this' = Some (1, 1136) \<and> live_alarms w' = [(1, 1136)]"
  using tone_one_schedule_no_leak[where this = playing_volume and w = playing_sdk
      and usPerWave = 1136 and lvl = 500 and duration = 1000 and time = TIME_MS]
    playing_accounted
  by (simp add: playing_sdk_def)

section \<open>Stopping a tone and destroying the instance\<close>

text \<open>\<^verbatim>\<open>stop_tone\<close> and the destructor call \<^verbatim>\<open>alarm_pool_destroy\<close> without the null check
  that \<^verbatim>\<open>tone\<close> makes.\<close>

lemma stop_tone_null_pool:
  "m_alarmPool this = None \<Longrightarrow> stop_tone this w = Inl Null_pool_destroy"
  by (simp add: stop_tone_def cancel_timer_def Let_def alarm_pool_destroy_def
      split: prod.splits)

lemma stop_tone_result:
  "m_alarmPool this = Some p \<Longrightarrow>
   stop_tone this w =
     Inr (this\<lparr>m_timer := None, m_timerData := None, m_alarmPool := None\<rparr>,
          w\<lparr>live_alarms := (case m_timer this of None \<Rightarrow> live_alarms w
                              | Some a \<Rightarrow> remove1 a (live_alarms w)),
            live_data := (case m_timerData this of None \<Rightarrow> live_data w
                          | Some _ \<Rightarrow> live_data w - 1),
            live_pools := remove1 p (live_pools w),
            gpio_level := (if m_diff this
                           then (gpio_level w)(m_pinPlus this := 0, m_pinMinus this := 0)
                           else (gpio_level w)(m_pinPlus this := 0))\<rparr>)"
  by (cases "m_timer this"; cases "m_timerData this")
     (simp_all add: stop_tone_def cancel_timer_def Let_def timer_ops pwm_set_gpio_level_def)

lemma destroy_null_pool:
  "m_alarmPool this = None \<Longrightarrow> destroy_RP2040_Volume this w = Inl Null_pool_destroy"
  by (simp add: destroy_RP2040_Volume_def Let_def alarm_pool_destroy_def split: prod.splits)

lemma destroy_result:
  "m_alarmPool this = Some p \<Longrightarrow>
   destroy_RP2040_Volume this w =
     Inr (w\<lparr>live_alarms := (case m_timer this of None \<Rightarrow> live_alarms w
                              | Some a \<Rightarrow> remove1 a (live_alarms w)),
            live_data := (case m_timerData this of None \<Rightarrow> live_data w
                          | Some _ \<Rightarrow> live_data w - 1),
            live_pools := remove1 p (live_pools w)\<rparr>)"
  by (cases "m_timer this"; cases "m_timerData this")
     (simp_all add: destroy_RP2040_Volume_def Let_def timer_ops)

lemma stop_tone_second_call_faults:
  "stop_tone this w = Inr (this', w') \<Longrightarrow> stop_tone this' w' = Inl Null_pool_destroy"
proof (cases "m_alarmPool this")
  case None
  assume "stop_tone this w = Inr (this', w')"
  with stop_tone_null_pool[OF None, of w] show ?thesis by simp
next
  case (Some p)
  assume "stop_tone this w = Inr (this', w')"
  with stop_tone_result[OF Some, of w] have "m_alarmPool this' = None" by auto
  then show ?thesis by (rule stop_tone_null_pool)
qed

text \<open>
  C7. \<^verbatim>\<open>stop_tone\<close> on an idle instance: on the instance the constructor has just built,
  which never played, the call destroys a null pool. On the playing instance a first
  call succeeds and leaves both outputs at zero, no schedule, no pool and no timer; the
  second call in a row then destroys a null pool as well, so it does not reach the end
  state of the first.
\<close>

theorem stop_tone_when_idle_faults:
  "RP2040_Volume 2 3 0 0 sdk_reset = Inr (example_volume, sdk_reset\<lparr>gpio_pwm := {3, 2}\<rparr>) \<and>
   stop_tone example_volume (sdk_reset\<lparr>gpio_pwm := {3, 2}\<rparr>) = Inl Null_pool_destroy \<and>
   (\<exists>v w. stop_tone playing_volume playing_sdk = Inr (v, w) \<and>
      m_timerData v = None \<and> m_alarmPool v = None \<and> m_timer v = None \<and>
      live_pools w = [] \<and> live_alarms w = [] \<and> live_data w = 0 \<and>
      gpio_level w 2 = 0 \<and> gpio_level w 3 = 0 \<and>
      stop_tone v w = Inl Null_pool_destroy)"
proof (intro conjI)
  show "RP2040_Volume 2 3 0 0 sdk_reset = Inr (example_volume, sdk_reset\<lparr>gpio_pwm := {3, 2}\<rparr>)"
    by (simp add: RP2040_Volume_def Let_def pwm_gpio_to_slice_num_def example_volume_def
      gpio_set_function_pwm_def sdk_reset_def)
  show "stop_tone example_volume (sdk_reset\<lparr>gpio_pwm := {3, 2}\<rparr>) = Inl Null_pool_destroy"
    by (rule stop_tone_null_pool) (simp add: example_volume_def)
  have p: "m_alarmPool playing_volume = Some 0" by (simp add: playing_volume_def)
  show "\<exists>v w. stop_tone playing_volume playing_sdk = Inr (v, w) \<and>
      m_timerData v = None \<and> m_alarmPool v = None \<and> m_timer v = None \<and>
      live_pools w = [] \<and> live_alarms w = [] \<and> live_data w = 0 \<and>
      gpio_level w 2 = 0 \<and> gpio_level w 3 = 0 \<and>
      stop_tone v w = Inl Null_pool_destroy"
    by (simp add: stop_tone_result[OF p] stop_tone_null_pool)
       (simp add: playing_volume_def playing_sdk_def)
qed

text \<open>
  C8 (amended). On an instance that holds an alarm pool (a tone was started and has
  not been stopped) the destructor takes the resource-release steps of \<^verbatim>\<open>stop_tone\<close>:
  both return, the destructor has cancelled the timer, deleted the schedule object and
  destroyed the pool, and its effect on timer, heap and pool is that of \<^verbatim>\<open>stop_tone\<close>.
  It does not drive the outputs: the duty levels are left as they were.
\<close>

theorem destructor_with_pool_releases_like_stop_tone:
  assumes "m_alarmPool this = Some p"
  shows "\<exists>this' w' w''. stop_tone this w = Inr (this', w') \<and>
           destroy_RP2040_Volume this w = Inr w'' \<and>
           w'' = w'\<lparr>gpio_level := gpio_level w\<rparr> \<and>
           gpio_level w'' = gpio_level w \<and>
           live_alarms w'' = (case m_timer this of None \<Rightarrow> live_alarms w
                              | Some a \<Rightarrow> remove1 a (live_alarms w)) \<and>
           live_data w'' = (case m_timerData this of None \<Rightarrow> live_data w
                            | Some _ \<Rightarrow> live_data w - 1) \<and>
           live_pools w'' = remove1 p (live_pools w)"
  by (simp add: stop_tone_result[OF assms] destroy_result[OF assms])

theorem destructor_with_pool_releases_like_stop_tone_witness:
  "\<exists>this' w' w''. stop_tone playing_volume playing_sdk = Inr (this', w') \<and>
     destroy_RP2040_Volume playing_volume playing_sdk = Inr w'' \<and>
     w'' = w'\<lparr>gpio_level := gpio_level playing_sdk\<rparr> \<and>
     gpio_level w'' = gpio_level playing_sdk \<and>
     live_alarms w'' = [] \<and> live_data w'' = 0 \<and> live_pools w'' = []"
  using destructor_with_pool_releases_like_stop_tone[where this = playing_volume and p = 0
      and w = playing_sdk]
  by (simp add: playing_volume_def) (simp add: playing_sdk_def)

text \<open>
  The claim as stated fails on the playing instance: the destructor leaves the minus
  lead (pin 3) at level 1000, where \<^verbatim>\<open>stop_tone\<close> puts it to zero.
\<close>

theorem destructor_leaves_outputs_counterexample:
  "map_sum id (\<lambda>w. gpio_level w 3) (destroy_RP2040_Volume playing_volume playing_sdk) =
     Inr 1000 \<and>
   map_sum id (\<lambda>(v, w). gpio_level w 3) (stop_tone playing_volume playing_sdk) = Inr 0"
proof -
  have p: "m_alarmPool playing_volume = Some 0" by (simp add: playing_volume_def)
  show ?thesis
    by (simp add: stop_tone_result[OF p] destroy_result[OF p])
       (simp add: playing_volume_def playing_sdk_def)
qed

subsection \<open>The accounting is kept by the constructor and by \<^verbatim>\<open>stop_tone\<close>\<close>

lemma constructor_accounted:
  "RP2040_Volume pin_plus pin_minus level0 numRepeats0 sdk_reset = Inr (this, w) \<Longrightarrow>
   accounted this w \<and> m_timerData this = None \<and> m_alarmPool this = None \<and> m_timer this = None"
  by (auto simp: RP2040_Volume_def Let_def accounted_def sdk_reset_def
      gpio_set_function_pwm_def split: if_splits)

lemma stop_tone_accounted:
  assumes "accounted this w" and "stop_tone this w = Inr (this', w')"
  shows "accounted this' w' \<and> live_pools w' = [] \<and> live_alarms w' = [] \<and> live_data w' = 0"
proof (cases "m_alarmPool this")
  case None
  from stop_tone_null_pool[OF this, of w] assms(2) show ?thesis by simp
next
  case (Some p)
  from stop_tone_result[OF Some, of w] assms Some show ?thesis
    by (cases "m_timer this"; cases "m_timerData this") (auto simp: accounted_def)
qed

end
